theory Spec2Isabelle
  imports Main "HOL-Library.Multiset"
begin

section \<open>Go primitives used by the package\<close>

text \<open>
  Go's \<open>int\<close> is a 64-bit two's complement integer on the platforms the package is
  built for. Values are modelled as \<open>int\<close>; every \<open>+\<close> and \<open>-\<close> of the source is
  followed by \<open>wrap64\<close>, which is the wrap-around that Go defines for signed overflow.
  \<open>int64\<close> says that a value is representable.
\<close>

definition wrap64 :: "int \<Rightarrow> int" where
  "wrap64 x = (x + 2 ^ 63) mod 2 ^ 64 - 2 ^ 63"

definition int64 :: "int \<Rightarrow> bool" where
  "int64 x = (- (2 ^ 63) \<le> x \<and> x < 2 ^ 63)"

text \<open>
  A panic of the Go runtime or library ends the program. A function that prints
  returns either the panic or the text it wrote to standard output.
\<close>

datatype panic = NegativeRepeatCount | RepeatOverflow | IndexOutOfRange

type_synonym printed = "panic + string"

definition Print :: "string \<Rightarrow> printed" where
  "Print s = Inr s"

fun andThen :: "printed \<Rightarrow> printed \<Rightarrow> printed" where
  "andThen (Inl p) y = Inl p"
| "andThen (Inr a) (Inl p) = Inl p"
| "andThen (Inr a) (Inr b) = Inr (a @ b)"

fun sequence :: "printed list \<Rightarrow> printed" where
  "sequence [] = Inr []"
| "sequence (x # xs) = andThen x (sequence xs)"

definition newline :: string where
  "newline = [CHR 0x0A]"

text \<open>\<open>strings.Repeat\<close>: panics on a negative count and on a result longer than an \<open>int\<close>.\<close>

definition Repeat :: "string \<Rightarrow> int \<Rightarrow> printed" where
  "Repeat s cnt =
     (if cnt = 0 then Inr []
      else if cnt = 1 then Inr s
      else if cnt < 0 then Inl NegativeRepeatCount
      else if int (length s) * cnt \<ge> 2 ^ 63 then Inl RepeatOverflow
      else Inr (concat (replicate (nat cnt) s)))"

text \<open>\<open>strings.Split(source, "\n")\<close>: the pieces between newlines, never an empty list.\<close>

fun Split :: "string \<Rightarrow> string list" where
  "Split [] = [[]]"
| "Split (c # cs) =
     (if c = CHR 0x0A then [] # Split cs
      else (case Split cs of [] \<Rightarrow> [[c]] | l # ls \<Rightarrow> (c # l) # ls))"

text \<open>The verbs \<open>%d\<close> and \<open>%4d\<close> of \<open>fmt.Printf\<close>.\<close>

definition digit_char :: "nat \<Rightarrow> char" where
  "digit_char n = ''0123456789'' ! n"

function dec_digits :: "nat \<Rightarrow> string" where
  "dec_digits n = (if n < 10 then [digit_char n] else dec_digits (n div 10) @ [digit_char (n mod 10)])"
  by pat_completeness auto
termination
  by (relation "measure (\<lambda>n. n)") auto

declare dec_digits.simps [simp del]

definition fmt_d :: "int \<Rightarrow> string" where
  "fmt_d n = (if n < 0 then CHR ''-'' # dec_digits (nat (- n)) else dec_digits (nat n))"

definition fmt_4d :: "int \<Rightarrow> string" where
  "fmt_4d n = replicate (4 - length (fmt_d n)) (CHR '' '') @ fmt_d n"

section \<open>fehler.go\<close>

definition colorReset :: string where "colorReset = CHR 0x1B # ''[0m''"
definition colorRed :: string where "colorRed = CHR 0x1B # ''[31m''"
definition colorYellow :: string where "colorYellow = CHR 0x1B # ''[33m''"
definition colorBlue :: string where "colorBlue = CHR 0x1B # ''[34m''"
definition colorMagenta :: string where "colorMagenta = CHR 0x1B # ''[35m''"
definition colorCyan :: string where "colorCyan = CHR 0x1B # ''[36m''"
definition colorWhite :: string where "colorWhite = CHR 0x1B # ''[37m''"
definition colorBold :: string where "colorBold = CHR 0x1B # ''[1m''"
definition colorDim :: string where "colorDim = CHR 0x1B # ''[2m''"

text \<open>\<open>OutputFormat\<close> and \<open>Severity\<close> are named \<open>int\<close> types with \<open>iota\<close> constants.\<close>

type_synonym OutputFormat = int

definition FormatFehler :: OutputFormat where [simp]: "FormatFehler = 0"
definition FormatGCC :: OutputFormat where [simp]: "FormatGCC = 1"
definition FormatMSVC :: OutputFormat where [simp]: "FormatMSVC = 2"

record Position =
  Line :: int
  Column :: int

record SourceRange =
  File :: string
  Start :: Position
  End :: Position

definition NewSourceRangeSingle :: "string \<Rightarrow> int \<Rightarrow> int \<Rightarrow> SourceRange" where
  "NewSourceRangeSingle file line column =
     \<lparr>File = file, Start = \<lparr>Line = line, Column = column\<rparr>, End = \<lparr>Line = line, Column = column\<rparr>\<rparr>"

definition NewSourceRangeSpan :: "string \<Rightarrow> int \<Rightarrow> int \<Rightarrow> int \<Rightarrow> int \<Rightarrow> SourceRange" where
  "NewSourceRangeSpan file startLine startColumn endLine endColumn =
     \<lparr>File = file, Start = \<lparr>Line = startLine, Column = startColumn\<rparr>,
      End = \<lparr>Line = endLine, Column = endColumn\<rparr>\<rparr>"

definition IsMultiline :: "SourceRange \<Rightarrow> bool" where
  "IsMultiline s = (Line (Start s) \<noteq> Line (End s))"

definition IsSingleChar :: "SourceRange \<Rightarrow> bool" where
  "IsSingleChar s = (Line (Start s) = Line (End s) \<and> Column (Start s) = Column (End s))"

definition Length :: "SourceRange \<Rightarrow> int" where
  "Length s =
     (if IsMultiline s then 0
      else if Column (End s) \<ge> Column (Start s)
        then wrap64 (wrap64 (Column (End s) - Column (Start s)) + 1)
      else 1)"

type_synonym Severity = int

definition SeverityFatal :: Severity where [simp]: "SeverityFatal = 0"
definition SeverityError :: Severity where [simp]: "SeverityError = 1"
definition SeverityWarning :: Severity where [simp]: "SeverityWarning = 2"
definition SeverityNote :: Severity where [simp]: "SeverityNote = 3"
definition SeverityTodo :: Severity where [simp]: "SeverityTodo = 4"
definition SeverityUnimplemented :: Severity where [simp]: "SeverityUnimplemented = 5"

definition Color :: "Severity \<Rightarrow> string" where
  "Color s =
     (if s = SeverityFatal \<or> s = SeverityError then colorRed
      else if s = SeverityWarning then colorYellow
      else if s = SeverityNote then colorBlue
      else if s = SeverityTodo then colorMagenta
      else if s = SeverityUnimplemented then colorCyan
      else [])"

definition Label :: "Severity \<Rightarrow> string" where
  "Label s =
     (if s = SeverityFatal then ''fatal''
      else if s = SeverityError then ''error''
      else if s = SeverityWarning then ''warning''
      else if s = SeverityNote then ''note''
      else if s = SeverityTodo then ''todo''
      else if s = SeverityUnimplemented then ''unimplemented''
      else ''unknown'')"

text \<open>The pointer fields of \<open>Diagnostic\<close> are options: \<open>nil\<close> is \<open>None\<close>.\<close>

record Diagnostic =
  Severity :: Severity
  Message :: string
  Range_of :: "SourceRange option"
  Help :: "string option"
  Code :: "string option"
  Url :: "string option"

definition NewDiagnostic :: "Severity \<Rightarrow> string \<Rightarrow> Diagnostic" where
  "NewDiagnostic severity message =
     \<lparr>Severity = severity, Message = message, Range_of = None, Help = None, Code = None, Url = None\<rparr>"

definition WithRange :: "Diagnostic \<Rightarrow> SourceRange \<Rightarrow> Diagnostic" where
  "WithRange d r = d\<lparr>Range_of := Some r\<rparr>"

definition WithLocation :: "Diagnostic \<Rightarrow> string \<Rightarrow> int \<Rightarrow> int \<Rightarrow> Diagnostic" where
  "WithLocation d file line column = d\<lparr>Range_of := Some (NewSourceRangeSingle file line column)\<rparr>"

definition WithHelp :: "Diagnostic \<Rightarrow> string \<Rightarrow> Diagnostic" where
  "WithHelp d help = d\<lparr>Help := Some help\<rparr>"

definition WithCode :: "Diagnostic \<Rightarrow> string \<Rightarrow> Diagnostic" where
  "WithCode d code = d\<lparr>Code := Some code\<rparr>"

definition WithUrl :: "Diagnostic \<Rightarrow> string \<Rightarrow> Diagnostic" where
  "WithUrl d url = d\<lparr>Url := Some url\<rparr>"

record ErrorReporter =
  Sources :: "string \<rightharpoonup> string"
  Format :: OutputFormat

definition NewErrorReporter :: ErrorReporter where
  "NewErrorReporter = \<lparr>Sources = Map.empty, Format = FormatFehler\<rparr>"

definition WithFormat :: "ErrorReporter \<Rightarrow> OutputFormat \<Rightarrow> ErrorReporter" where
  "WithFormat e format = e\<lparr>Format := format\<rparr>"

definition AddSource :: "ErrorReporter \<Rightarrow> string \<Rightarrow> string \<Rightarrow> ErrorReporter" where
  "AddSource e filename content = e\<lparr>Sources := (Sources e)(filename \<mapsto> content)\<rparr>"

subsection \<open>printUnderline\<close>

definition printUnderline :: "SourceRange \<Rightarrow> int \<Rightarrow> int \<Rightarrow> string \<Rightarrow> printed" where
  "printUnderline r lineNum lineNumWidth color =
     sequence
       [Print ''  '', Print color,
        Repeat '' '' (wrap64 (lineNumWidth + 1)),
        Print ''  '',
        (if IsMultiline r then
           (if lineNum = Line (Start r) then
              sequence
                [Repeat '' '' (wrap64 (Column (Start r) - 1)),
                 Print ''~'',
                 Repeat ''~'' (wrap64 (80 - Column (Start r)))]
            else if lineNum = Line (End r) then Repeat ''~'' (Column (End r))
            else if lineNum > Line (Start r) \<and> lineNum < Line (End r) then Repeat ''~'' 80
            else Print [])
         else
           sequence
             [Repeat '' '' (wrap64 (Column (Start r) - 1)),
              (if IsSingleChar r then Print ''^'' else Repeat ''~'' (Length r))]),
        Print (colorReset @ newline)]"

subsection \<open>printSourceSnippet\<close>

text \<open>An index expression \<open>xs[i]\<close> panics outside \<open>0 \<le> i < len(xs)\<close>.\<close>

definition index_at :: "'a list \<Rightarrow> int \<Rightarrow> panic + 'a" where
  "index_at xs i = (if 0 \<le> i \<and> i < int (length xs) then Inr (xs ! nat i) else Inl IndexOutOfRange)"

definition contextStart :: "SourceRange \<Rightarrow> int" where
  "contextStart r = (if Line (Start r) > 2 then wrap64 (Line (Start r) - 2) else 1)"

definition contextEnd :: "SourceRange \<Rightarrow> string list \<Rightarrow> int" where
  "contextEnd r lines =
     (let contextEnd = wrap64 (Line (Start r) + 2);
          contextEnd = (if IsMultiline r then wrap64 (Line (End r) + 2) else contextEnd)
      in if contextEnd > int (length lines) then int (length lines) else contextEnd)"

text \<open>The body of the \<open>for\<close> loop, for one value of \<open>currentLine\<close>.\<close>

definition snippetLine :: "string list \<Rightarrow> SourceRange \<Rightarrow> string \<Rightarrow> int \<Rightarrow> printed" where
  "snippetLine lines r color currentLine =
     (case index_at lines (wrap64 (currentLine - 1)) of
        Inl p \<Rightarrow> Inl p
      | Inr line \<Rightarrow>
          (let lineNumWidth = 4;
               isErrorLine = (currentLine \<ge> Line (Start r) \<and> currentLine \<le> Line (End r))
           in if isErrorLine then
                sequence
                  [Print (''  '' @ colorRed @ colorBold @ fmt_4d currentLine @ '' |'' @ colorReset
                          @ '' '' @ line @ newline),
                   printUnderline r currentLine lineNumWidth color]
              else
                Print (''  '' @ colorDim @ fmt_4d currentLine @ '' |'' @ colorReset
                       @ '' '' @ line @ newline)))"

text \<open>
  The loop \<open>for currentLine := contextStart; currentLine <= contextEnd; currentLine++\<close>.
  The loop runs only while \<open>currentLine \<le> contextEnd \<le> len(lines)\<close>, and a slice of strings
  is shorter than \<open>2 ^ 63 - 1\<close>, so the increment is below the limit of \<open>int\<close>.
\<close>

function snippetLoop :: "string list \<Rightarrow> SourceRange \<Rightarrow> string \<Rightarrow> int \<Rightarrow> int \<Rightarrow> printed" where
  "snippetLoop lines r color currentLine cEnd =
     (if currentLine \<le> cEnd then
        andThen (snippetLine lines r color currentLine)
          (snippetLoop lines r color (currentLine + 1) cEnd)
      else Inr [])"
  by pat_completeness auto
termination
  by (relation "measure (\<lambda>(lines, r, color, currentLine, cEnd). nat (cEnd + 1 - currentLine))") auto

declare snippetLoop.simps [simp del]

definition printSourceSnippet :: "ErrorReporter \<Rightarrow> SourceRange \<Rightarrow> string \<Rightarrow> printed" where
  "printSourceSnippet e r color =
     (case Sources e (File r) of
        None \<Rightarrow> Inr []
      | Some source \<Rightarrow>
          (let lines = Split source
           in snippetLoop lines r color (contextStart r) (contextEnd r lines)))"

subsection \<open>The three console formats\<close>

definition printFehler :: "ErrorReporter \<Rightarrow> Diagnostic \<Rightarrow> printed" where
  "printFehler e diagnostic =
     sequence
       [(case Code diagnostic of
           Some code \<Rightarrow>
             Print (Color (Severity diagnostic) @ colorBold @ Label (Severity diagnostic)
                    @ ''['' @ code @ '']'' @ colorReset @ '': '' @ Message diagnostic @ newline)
         | None \<Rightarrow>
             Print (Color (Severity diagnostic) @ colorBold @ Label (Severity diagnostic)
                    @ colorReset @ '': '' @ Message diagnostic @ newline)),
        (case Range_of diagnostic of
           Some r \<Rightarrow>
             sequence
               [Print (''  '' @ colorCyan @ colorBold @ File r @ '':'' @ fmt_d (Line (Start r))
                       @ '':'' @ fmt_d (Column (Start r)) @ colorReset @ newline),
                printSourceSnippet e r (Color (Severity diagnostic))]
         | None \<Rightarrow> Print []),
        (case Help diagnostic of
           Some help \<Rightarrow> Print (''  '' @ colorCyan @ colorBold @ ''help'' @ colorReset @ '': '' @ help @ newline)
         | None \<Rightarrow> Print []),
        (case Url diagnostic of
           Some url \<Rightarrow> Print (''  '' @ colorCyan @ colorBold @ ''see'' @ colorReset @ '': '' @ url @ newline)
         | None \<Rightarrow> Print []),
        Print newline]"

definition printGcc :: "ErrorReporter \<Rightarrow> Diagnostic \<Rightarrow> printed" where
  "printGcc e diagnostic =
     (let color = Color (Severity diagnostic)
      in case Range_of diagnostic of
           Some r \<Rightarrow>
             Print (colorBold @ File r @ '':'' @ fmt_d (Line (Start r)) @ '':''
                    @ fmt_d (Column (Start r)) @ '': '' @ color @ Label (Severity diagnostic)
                    @ '': '' @ colorReset @ colorBold @ Message diagnostic @ colorReset @ newline)
         | None \<Rightarrow>
             Print (colorBold @ color @ Label (Severity diagnostic) @ '': '' @ colorReset
                    @ colorBold @ Message diagnostic @ colorReset @ newline))"

definition printMsvc :: "ErrorReporter \<Rightarrow> Diagnostic \<Rightarrow> printed" where
  "printMsvc e diagnostic =
     (case Range_of diagnostic of
        Some r \<Rightarrow>
          (let code = (case Code diagnostic of Some c \<Rightarrow> c | None \<Rightarrow> ''unknown'')
           in Print (File r @ ''('' @ fmt_d (Line (Start r)) @ '', '' @ fmt_d (Column (Start r))
                     @ ''): '' @ Label (Severity diagnostic) @ '' '' @ code @ '': ''
                     @ Message diagnostic @ newline))
      | None \<Rightarrow> Print (Label (Severity diagnostic) @ '': '' @ Message diagnostic @ newline))"

definition Report :: "ErrorReporter \<Rightarrow> Diagnostic \<Rightarrow> printed" where
  "Report e diagnostic =
     (if Format e = FormatFehler then printFehler e diagnostic
      else if Format e = FormatGCC then printGcc e diagnostic
      else if Format e = FormatMSVC then printMsvc e diagnostic
      else Inr [])"

fun ReportMany :: "ErrorReporter \<Rightarrow> Diagnostic list \<Rightarrow> printed" where
  "ReportMany e [] = Inr []"
| "ReportMany e (diagnostic # diagnostics) = andThen (Report e diagnostic) (ReportMany e diagnostics)"

definition NewDiagnosticWithLocation :: "Severity \<Rightarrow> string \<Rightarrow> string \<Rightarrow> int \<Rightarrow> int \<Rightarrow> Diagnostic" where
  "NewDiagnosticWithLocation severity message file line column =
     WithLocation (NewDiagnostic severity message) file line column"

definition NewDiagnosticWithRange ::
  "Severity \<Rightarrow> string \<Rightarrow> string \<Rightarrow> int \<Rightarrow> int \<Rightarrow> int \<Rightarrow> int \<Rightarrow> Diagnostic" where
  "NewDiagnosticWithRange severity message file startLine startColumn endLine endColumn =
     WithRange (NewDiagnostic severity message)
       (NewSourceRangeSpan file startLine startColumn endLine endColumn)"

section \<open>sarif.go\<close>

text \<open>
  The structs of the report. Go allows the same field name in several structs; here
  \<open>SarifConfiguration.Level\<close>, \<open>SarifResult.Message\<close>, \<open>SarifResult.Level\<close> and
  \<open>SarifDriver.Version\<close> carry the name of their struct.
\<close>

record SarifMessage =
  Text :: string

record SarifConfiguration =
  ConfigurationLevel :: string

record SarifRule =
  ID :: string
  ShortDescription :: SarifMessage
  DefaultConfiguration :: "SarifConfiguration option"
  HelpURI :: string

record SarifArtifactLocation =
  URI :: string

record SarifRegion =
  StartLine :: int
  StartColumn :: int
  EndLine :: int
  EndColumn :: int

record SarifPhysicalLocation =
  ArtifactLocation :: SarifArtifactLocation
  Region :: SarifRegion

record SarifLocation =
  PhysicalLocation :: SarifPhysicalLocation

record SarifResult =
  ResultMessage :: SarifMessage
  ResultLevel :: string
  RuleID :: "string option"
  Locations :: "SarifLocation list"
  Kind :: string

record SarifDriver =
  Name :: string
  DriverVersion :: string
  InformationURI :: string
  Rules :: "SarifRule list"

record SarifTool =
  Driver :: SarifDriver

record SarifRun =
  Tool :: SarifTool
  Results :: "SarifResult list"

record SarifReport =
  Version :: string
  Schema :: string
  Runs :: "SarifRun list"

definition sarifLevel :: "Severity \<Rightarrow> string" where
  "sarifLevel sev =
     (if sev = SeverityFatal \<or> sev = SeverityError then ''error''
      else if sev = SeverityWarning then ''warning''
      else if sev = SeverityNote then ''note''
      else if sev = SeverityTodo \<or> sev = SeverityUnimplemented then ''none''
      else ''none'')"

text \<open>The rule that the first loop of \<open>EmitSarif\<close> stores for a diagnostic with code \<open>code\<close>.\<close>

definition newRule :: "Diagnostic \<Rightarrow> string \<Rightarrow> SarifRule" where
  "newRule d code =
     \<lparr>ID = code,
      ShortDescription = \<lparr>Text = Message d\<rparr>,
      DefaultConfiguration = Some \<lparr>ConfigurationLevel = sarifLevel (Severity d)\<rparr>,
      HelpURI = (case Url d of Some url \<Rightarrow> url | None \<Rightarrow> [])\<rparr>"

text \<open>
  The first loop. \<open>ruleMap\<close> is a Go map; it is kept as an association list with one
  entry for each key, a new key going to the end.
\<close>

fun collectRules :: "Diagnostic list \<Rightarrow> (string \<times> SarifRule) list \<Rightarrow> (string \<times> SarifRule) list" where
  "collectRules [] ruleMap = ruleMap"
| "collectRules (d # diagnostics) ruleMap =
     (case Code d of
        None \<Rightarrow> collectRules diagnostics ruleMap
      | Some code \<Rightarrow>
          (if map_of ruleMap code = None
           then collectRules diagnostics (ruleMap @ [(code, newRule d code)])
           else collectRules diagnostics ruleMap))"

text \<open>The result that the third loop appends for a diagnostic.\<close>

definition newResult :: "Diagnostic \<Rightarrow> SarifResult" where
  "newResult d =
     \<lparr>ResultMessage = \<lparr>Text = Message d\<rparr>,
      ResultLevel = sarifLevel (Severity d),
      RuleID = Code d,
      Locations =
        (case Range_of d of
           None \<Rightarrow> []
         | Some r \<Rightarrow>
             [\<lparr>PhysicalLocation =
                 \<lparr>ArtifactLocation = \<lparr>URI = File r\<rparr>,
                  Region = \<lparr>StartLine = Line (Start r), StartColumn = Column (Start r),
                            EndLine = Line (End r), EndColumn = Column (End r)\<rparr>\<rparr>\<rparr>]),
      Kind = ''fail''\<rparr>"

fun collectResults :: "Diagnostic list \<Rightarrow> SarifResult list" where
  "collectResults [] = []"
| "collectResults (d # diagnostics) = newResult d # collectResults diagnostics"

text \<open>
  \<open>EmitSarif\<close> builds the report and hands it to the JSON encoder of the Go library; the
  model returns the report. The second loop ranges over the Go map, and Go leaves the
  order of that iteration open: \<open>rangeOrder\<close> is the order the runtime picks, a
  rearrangement of the entries of the map.
\<close>

definition EmitSarif ::
  "((string \<times> SarifRule) list \<Rightarrow> (string \<times> SarifRule) list) \<Rightarrow> Diagnostic list \<Rightarrow> SarifReport" where
  "EmitSarif rangeOrder diagnostics =
     (let ruleMap = collectRules diagnostics [];
          rules = map snd (rangeOrder ruleMap);
          results = collectResults diagnostics
      in \<lparr>Version = ''2.1.0'',
          Schema = ''https://json.schemastore.org/sarif-2.1.0.json'',
          Runs =
            [\<lparr>Tool =
                \<lparr>Driver =
                   \<lparr>Name = ''fehler'', DriverVersion = ''0.5.0'',
                    InformationURI = ''https://github.com/ciathefed/fehler'',
                    Rules = rules\<rparr>\<rparr>,
              Results = results\<rparr>]\<rparr>)"

section \<open>Ranges\<close>

lemma wrap64_id: "int64 x \<Longrightarrow> wrap64 x = x"
  by (simp add: wrap64_def int64_def)

text \<open>
  C10. For every range, \<open>IsSingleChar\<close> holds exactly when start and end are the same
  position, \<open>IsMultiline\<close> exactly when the two lines differ, and the two never hold
  together. On a single line, for a range of more than one character whose end column is
  not before its start column, \<open>Length\<close> is \<open>end.column - start.column + 1\<close>, whenever
  that number is a Go \<open>int\<close> (it always is for columns from 1 on).
\<close>

theorem range_predicates:
  "(IsSingleChar r \<longleftrightarrow> Start r = End r)
   \<and> (IsMultiline r \<longleftrightarrow> Line (Start r) \<noteq> Line (End r))
   \<and> \<not> (IsSingleChar r \<and> IsMultiline r)
   \<and> (\<not> IsMultiline r \<and> \<not> IsSingleChar r \<and> Column (End r) \<ge> Column (Start r)
        \<and> int64 (Column (End r) - Column (Start r) + 1)
      \<longrightarrow> Length r = Column (End r) - Column (Start r) + 1)"
proof -
  have "IsSingleChar r \<longleftrightarrow> Start r = End r"
    by (auto simp: IsSingleChar_def intro: Position.equality)
  moreover have "IsMultiline r \<longleftrightarrow> Line (Start r) \<noteq> Line (End r)"
    by (simp add: IsMultiline_def)
  moreover have "\<not> (IsSingleChar r \<and> IsMultiline r)"
    by (simp add: IsSingleChar_def IsMultiline_def)
  moreover have "Length r = Column (End r) - Column (Start r) + 1"
    if "\<not> IsMultiline r" and "Column (End r) \<ge> Column (Start r)"
      and "int64 (Column (End r) - Column (Start r) + 1)"
  proof -
    from that have "int64 (Column (End r) - Column (Start r))"
      by (simp add: int64_def)
    with that show ?thesis
      by (simp add: Length_def wrap64_id)
  qed
  ultimately show ?thesis by blast
qed

theorem range_predicates_witness:
  "Length (NewSourceRangeSpan ''test.go'' 10 5 10 15) = 11
   \<and> \<not> IsMultiline (NewSourceRangeSpan ''test.go'' 10 5 10 15)
   \<and> \<not> IsSingleChar (NewSourceRangeSpan ''test.go'' 10 5 10 15)"
proof -
  let ?r = "NewSourceRangeSpan ''test.go'' 10 5 10 15"
  have cols: "Column (Start ?r) = 5" "Column (End ?r) = 15"
    and lines: "Line (Start ?r) = 10" "Line (End ?r) = 10"
    by (simp_all add: NewSourceRangeSpan_def)
  have ne: "Start ?r \<noteq> End ?r"
    by (simp add: NewSourceRangeSpan_def)
  from range_predicates [of ?r] ne lines have shape: "\<not> IsMultiline ?r" "\<not> IsSingleChar ?r"
    by simp_all
  have "int64 (Column (End ?r) - Column (Start ?r) + 1)"
    by (simp add: cols int64_def)
  with range_predicates [of ?r] shape cols
  have "Length ?r = Column (End ?r) - Column (Start ?r) + 1"
    by simp
  with shape show ?thesis
    by (simp add: cols)
qed

section \<open>Underlines\<close>

lemma concat_replicate_single: "concat (replicate n [c]) = replicate n c"
  by (induction n) simp_all

lemma Repeat_char: "0 \<le> n \<Longrightarrow> n < 2 ^ 63 \<Longrightarrow> Repeat [c] n = Inr (replicate (nat n) c)"
  by (simp add: Repeat_def concat_replicate_single)

lemma Repeat_negative: "n < 0 \<Longrightarrow> Repeat s n = Inl NegativeRepeatCount"
  by (simp add: Repeat_def)

lemma wrap64_small: "- (2 ^ 63) \<le> x \<Longrightarrow> x < 2 ^ 63 \<Longrightarrow> wrap64 x = x"
  by (simp add: wrap64_def)

lemma gutter_pad: "Repeat '' '' (wrap64 5) = Inr (replicate 5 (CHR '' ''))"
  by (simp add: wrap64_small Repeat_char)

lemma leading_spaces:
  "1 \<le> c \<Longrightarrow> int64 c \<Longrightarrow>
   Repeat '' '' (wrap64 (c - 1)) = Inr (replicate (nat (c - 1)) (CHR '' ''))"
  by (simp add: int64_def wrap64_small Repeat_char)

lemma length_tildes:
  assumes "\<not> IsMultiline r" and "1 \<le> Column (Start r)"
    and "int64 (Column (Start r))" and "int64 (Column (End r))"
  shows "Repeat ''~'' (Length r) = Inr (replicate (nat (Length r)) (CHR ''~''))"
proof -
  have "0 \<le> Length r \<and> Length r < 2 ^ 63"
    using assms by (simp add: Length_def int64_def wrap64_small)
  then show ?thesis
    by (simp add: Repeat_char)
qed

text \<open>
  C4. For every single-line range with a start column of at least 1, the underline is
  \<open>start.column - 1\<close> spaces followed by one caret when the range is a single character,
  and by \<open>Length\<close> tildes otherwise. It follows the fixed gutter (two spaces, the color,
  five spaces, two spaces) and is closed by the color reset and a newline.
\<close>

theorem underline_single_line:
  assumes "\<not> IsMultiline r" and "1 \<le> Column (Start r)"
    and "int64 (Column (Start r))" and "int64 (Column (End r))"
  shows "printUnderline r lineNum 4 color =
     Inr (''  '' @ color @ replicate 5 (CHR '' '') @ ''  ''
          @ replicate (nat (Column (Start r) - 1)) (CHR '' '')
          @ (if IsSingleChar r then ''^'' else replicate (nat (Length r)) (CHR ''~''))
          @ colorReset @ newline)"
proof -
  have sp: "Repeat '' '' (wrap64 (Column (Start r) - 1)) = Inr (replicate (nat (Column (Start r) - 1)) (CHR '' ''))"
    using assms by (simp add: int64_def wrap64_small Repeat_char)
  have len: "0 \<le> Length r \<and> Length r < 2 ^ 63"
    using assms by (simp add: Length_def int64_def wrap64_small)
  then have ti: "Repeat ''~'' (Length r) = Inr (replicate (nat (Length r)) (CHR ''~''))"
    by (simp add: Repeat_char)
  show ?thesis
    using assms(1) by (simp add: printUnderline_def gutter_pad sp ti Print_def)
qed

theorem underline_single_line_witness:
  "printUnderline (NewSourceRangeSpan ''example.go'' 5 14 5 20) 5 4 colorRed =
     Inr (''  '' @ colorRed @ replicate 5 (CHR '' '') @ ''  ''
          @ replicate 13 (CHR '' '') @ replicate 7 (CHR ''~'') @ colorReset @ newline)"
proof -
  let ?r = "NewSourceRangeSpan ''example.go'' 5 14 5 20"
  have "\<not> IsMultiline ?r" "1 \<le> Column (Start ?r)" "int64 (Column (Start ?r))" "int64 (Column (End ?r))"
    by (simp_all add: NewSourceRangeSpan_def IsMultiline_def int64_def)
  from underline_single_line [OF this, of 5 colorRed] show ?thesis
    by (simp add: NewSourceRangeSpan_def IsSingleChar_def IsMultiline_def Length_def wrap64_small)
qed

text \<open>
  C3. For every multi-line range with a start column from 1 to 80 and an end column of
  at least 1: under the first line the underline is \<open>start.column - 1\<close> spaces and
  \<open>81 - start.column\<close> tildes, under a line strictly between the first and the last it is
  80 tildes, and under the last line it is \<open>end.column\<close> tildes from column 1.
\<close>

theorem underline_multi_line:
  assumes "IsMultiline r" and "1 \<le> Column (Start r)" and "Column (Start r) \<le> 80"
    and "1 \<le> Column (End r)" and "int64 (Column (End r))"
  shows "printUnderline r (Line (Start r)) 4 color =
           Inr (''  '' @ color @ replicate 5 (CHR '' '') @ ''  ''
                @ replicate (nat (Column (Start r) - 1)) (CHR '' '')
                @ replicate (nat (81 - Column (Start r))) (CHR ''~'')
                @ colorReset @ newline)
       \<and> (Line (Start r) < lineNum \<and> lineNum < Line (End r) \<longrightarrow>
            printUnderline r lineNum 4 color =
              Inr (''  '' @ color @ replicate 5 (CHR '' '') @ ''  ''
                   @ replicate 80 (CHR ''~'') @ colorReset @ newline))
       \<and> printUnderline r (Line (End r)) 4 color =
           Inr (''  '' @ color @ replicate 5 (CHR '' '') @ ''  ''
                @ replicate (nat (Column (End r))) (CHR ''~'')
                @ colorReset @ newline)"
proof -
  have sp: "Repeat '' '' (wrap64 (Column (Start r) - 1)) = Inr (replicate (nat (Column (Start r) - 1)) (CHR '' ''))"
    using assms by (simp add: wrap64_small Repeat_char)
  have ti: "Repeat ''~'' (wrap64 (80 - Column (Start r))) = Inr (replicate (nat (80 - Column (Start r))) (CHR ''~''))"
    using assms by (simp add: wrap64_small Repeat_char)
  have one_more: "CHR ''~'' # replicate (nat (80 - Column (Start r))) (CHR ''~'') = replicate (nat (81 - Column (Start r))) (CHR ''~'')"
  proof -
    have "nat (81 - Column (Start r)) = Suc (nat (80 - Column (Start r)))"
      using assms by simp
    then show ?thesis by simp
  qed
  have last: "Repeat ''~'' (Column (End r)) = Inr (replicate (nat (Column (End r))) (CHR ''~''))"
    using assms by (simp add: int64_def Repeat_char)
  have mid: "Repeat ''~'' 80 = Inr (replicate 80 (CHR ''~''))"
    by (simp add: Repeat_char)
  have first_line: "printUnderline r (Line (Start r)) 4 color =
           Inr (''  '' @ color @ replicate 5 (CHR '' '') @ ''  ''
                @ replicate (nat (Column (Start r) - 1)) (CHR '' '')
                @ replicate (nat (81 - Column (Start r))) (CHR ''~'')
                @ colorReset @ newline)"
    using assms(1) by (simp add: printUnderline_def gutter_pad sp ti Print_def one_more [symmetric])
  have last_line: "printUnderline r (Line (End r)) 4 color =
           Inr (''  '' @ color @ replicate 5 (CHR '' '') @ ''  ''
                @ replicate (nat (Column (End r))) (CHR ''~'')
                @ colorReset @ newline)"
    using assms(1) by (simp add: printUnderline_def IsMultiline_def gutter_pad last Print_def)
  have mid_line: "printUnderline r lineNum 4 color =
              Inr (''  '' @ color @ replicate 5 (CHR '' '') @ ''  ''
                   @ replicate 80 (CHR ''~'') @ colorReset @ newline)"
    if "Line (Start r) < lineNum" and "lineNum < Line (End r)"
    using assms(1) that by (simp add: printUnderline_def gutter_pad mid Print_def)
  from first_line mid_line last_line show ?thesis by blast
qed

theorem underline_multi_line_witness:
  "printUnderline (NewSourceRangeSpan ''test.go'' 5 10 8 15) 5 4 colorYellow =
     Inr (''  '' @ colorYellow @ replicate 5 (CHR '' '') @ ''  ''
          @ replicate 9 (CHR '' '') @ replicate 71 (CHR ''~'') @ colorReset @ newline)
   \<and> printUnderline (NewSourceRangeSpan ''test.go'' 5 10 8 15) 6 4 colorYellow =
     Inr (''  '' @ colorYellow @ replicate 5 (CHR '' '') @ ''  ''
          @ replicate 80 (CHR ''~'') @ colorReset @ newline)
   \<and> printUnderline (NewSourceRangeSpan ''test.go'' 5 10 8 15) 8 4 colorYellow =
     Inr (''  '' @ colorYellow @ replicate 5 (CHR '' '') @ ''  ''
          @ replicate 15 (CHR ''~'') @ colorReset @ newline)"
proof -
  let ?r = "NewSourceRangeSpan ''test.go'' 5 10 8 15"
  have "IsMultiline ?r" "1 \<le> Column (Start ?r)" "Column (Start ?r) \<le> 80"
    "1 \<le> Column (End ?r)" "int64 (Column (End ?r))"
    by (simp_all add: NewSourceRangeSpan_def IsMultiline_def int64_def)
  from underline_multi_line [OF this, of colorYellow 6] show ?thesis
    by (simp add: NewSourceRangeSpan_def)
qed

text \<open>
  For a range with all four coordinates at least 1, \<open>printUnderline\<close> returns unless the
  line is the first line of a multi-line range that starts beyond column 80.
\<close>

lemma printUnderline_returns_iff:
  assumes "1 \<le> Line (Start r)" and "1 \<le> Column (Start r)" and "1 \<le> Line (End r)" and "1 \<le> Column (End r)"
    and "int64 (Column (Start r))" and "int64 (Column (End r))"
  shows "(\<exists>s. printUnderline r lineNum 4 color = Inr s)
     \<longleftrightarrow> \<not> (IsMultiline r \<and> lineNum = Line (Start r) \<and> Column (Start r) > 80)"
proof (cases "IsMultiline r")
  case False
  with assms show ?thesis
    by (simp add: printUnderline_def gutter_pad leading_spaces length_tildes Print_def)
next
  case multi: True
  show ?thesis
  proof (cases "lineNum = Line (Start r)")
    case first: True
    show ?thesis
    proof (cases "Column (Start r) \<le> 80")
      case True
      with assms have "Repeat ''~'' (wrap64 (80 - Column (Start r)))
          = Inr (replicate (nat (80 - Column (Start r))) (CHR ''~''))"
        by (simp add: wrap64_small Repeat_char)
      with True multi first assms show ?thesis
        by (simp add: printUnderline_def gutter_pad leading_spaces Print_def)
    next
      case False
      have sp: "Repeat '' '' (wrap64 (Column (Start r) - 1)) = Inr (replicate (nat (Column (Start r) - 1)) (CHR '' ''))"
        using assms by (simp add: int64_def wrap64_small Repeat_char)
      have "wrap64 (80 - Column (Start r)) < 0"
        using False assms by (simp add: int64_def wrap64_small)
      then have "Repeat ''~'' (wrap64 (80 - Column (Start r))) = Inl NegativeRepeatCount"
        by (rule Repeat_negative)
      then have "printUnderline r lineNum 4 color = Inl NegativeRepeatCount"
        using multi first by (simp add: printUnderline_def gutter_pad sp Print_def)
      with multi first False show ?thesis by simp
    qed
  next
    case other: False
    have last: "Repeat ''~'' (Column (End r)) = Inr (replicate (nat (Column (End r))) (CHR ''~''))"
      using assms by (simp add: int64_def Repeat_char)
    have mid: "Repeat ''~'' 80 = Inr (replicate 80 (CHR ''~''))"
      by (simp add: Repeat_char)
    from multi other show ?thesis
      by (simp add: printUnderline_def gutter_pad last mid Print_def)
  qed
qed

text \<open>
  C2. Underline drawing should return for every range with coordinates of at least 1.
  On the first line of a multi-line range that starts at column 81 the repeat count
  \<open>80 - start.column\<close> is negative and \<open>strings.Repeat\<close> panics.
\<close>

theorem underline_panics_beyond_column_80:
  "printUnderline (NewSourceRangeSpan ''main.go'' 1 81 2 1) 1 4 colorRed = Inl NegativeRepeatCount"
  by (simp add: printUnderline_def NewSourceRangeSpan_def IsMultiline_def gutter_pad Print_def
      Repeat_def wrap64_def)

section \<open>The context window of a snippet\<close>

lemma snippetLoop_upto:
  "snippetLoop lines r color a b = sequence (map (snippetLine lines r color) [a..b])"
proof (induction lines r color a b rule: snippetLoop.induct)
  case (1 lines r color currentLine cEnd)
  show ?case
  proof (cases "currentLine \<le> cEnd")
    case True
    then have "[currentLine..cEnd] = currentLine # [currentLine + 1..cEnd]"
      by (simp add: upto_rec1)
    with True 1 show ?thesis
      by (subst snippetLoop.simps) simp
  next
    case False
    then show ?thesis
      by (subst snippetLoop.simps) simp
  qed
qed

lemma contextStart_max: "int64 (Line (Start r)) \<Longrightarrow> contextStart r = max 1 (Line (Start r) - 2)"
  by (simp add: contextStart_def int64_def wrap64_small)

lemma contextStart_ge_1: "int64 (Line (Start r)) \<Longrightarrow> 1 \<le> contextStart r"
  by (simp add: contextStart_max)

lemma contextEnd_le_length: "contextEnd r lines \<le> int (length lines)"
  by (simp add: contextEnd_def Let_def)

lemma contextEnd_min:
  assumes "int64 (Line (Start r))" and "int64 (Line (End r))"
    and "int64 ((if IsMultiline r then Line (End r) else Line (Start r)) + 2)"
  shows "contextEnd r lines = min (int (length lines)) ((if IsMultiline r then Line (End r) else Line (Start r)) + 2)"
  using assms by (auto simp: contextEnd_def Let_def wrap64_id)

text \<open>
  C5 (as amended). For every range whose start line is a Go \<open>int\<close> and every registered
  source, the snippet is made of exactly the lines numbered from \<open>contextStart\<close> to
  \<open>contextEnd\<close>, in order; the window starts at \<open>max(1, start.line - 2)\<close>; and no line
  number below 1 or above the number of lines is produced. When moreover adding 2 to the
  end line (the start line for a single-line range) does not overflow, the window ends
  at \<open>min(total_lines, end.line + 2)\<close>.
\<close>

theorem context_window:
  assumes "Sources e (File r) = Some source" and "int64 (Line (Start r))"
  shows "contextStart r = max 1 (Line (Start r) - 2)
       \<and> printSourceSnippet e r color =
           sequence (map (snippetLine (Split source) r color)
             [contextStart r .. contextEnd r (Split source)])
       \<and> (\<forall>n \<in> set [contextStart r .. contextEnd r (Split source)].
             1 \<le> n \<and> n \<le> int (length (Split source)))
       \<and> (int64 (Line (End r))
            \<and> int64 ((if IsMultiline r then Line (End r) else Line (Start r)) + 2) \<longrightarrow>
              contextEnd r (Split source) =
                min (int (length (Split source)))
                  ((if IsMultiline r then Line (End r) else Line (Start r)) + 2)
            \<and> printSourceSnippet e r color =
                sequence (map (snippetLine (Split source) r color)
                  [max 1 (Line (Start r) - 2) ..
                   min (int (length (Split source)))
                     ((if IsMultiline r then Line (End r) else Line (Start r)) + 2)]))"
proof -
  let ?lines = "Split source"
  let ?last = "(if IsMultiline r then Line (End r) else Line (Start r)) + 2"
  note s = contextStart_max [OF assms(2)]
  have p: "printSourceSnippet e r color =
      sequence (map (snippetLine ?lines r color) [contextStart r .. contextEnd r ?lines])"
    using assms(1) by (simp add: printSourceSnippet_def snippetLoop_upto Let_def)
  have b: "\<forall>n \<in> set [contextStart r .. contextEnd r ?lines]. 1 \<le> n \<and> n \<le> int (length ?lines)"
  proof
    fix n
    assume "n \<in> set [contextStart r .. contextEnd r ?lines]"
    then have "contextStart r \<le> n" and "n \<le> contextEnd r ?lines"
      by simp_all
    with contextStart_ge_1 [OF assms(2)] contextEnd_le_length [of r ?lines]
    show "1 \<le> n \<and> n \<le> int (length ?lines)"
      by linarith
  qed
  have w: "contextEnd r ?lines = min (int (length ?lines)) ?last
      \<and> printSourceSnippet e r color =
          sequence (map (snippetLine ?lines r color)
            [max 1 (Line (Start r) - 2) .. min (int (length ?lines)) ?last])"
    if "int64 (Line (End r)) \<and> int64 ?last"
  proof -
    from that have e: "contextEnd r ?lines = min (int (length ?lines)) ?last"
      using contextEnd_min [OF assms(2), of ?lines] by blast
    from p have "printSourceSnippet e r color =
        sequence (map (snippetLine ?lines r color)
          [max 1 (Line (Start r) - 2) .. min (int (length ?lines)) ?last])"
      by (simp only: s e)
    with e show ?thesis by (rule conjI)
  qed
  from w have w': "int64 (Line (End r)) \<and> int64 ?last \<longrightarrow>
      contextEnd r ?lines = min (int (length ?lines)) ?last
      \<and> printSourceSnippet e r color =
          sequence (map (snippetLine ?lines r color)
            [max 1 (Line (Start r) - 2) .. min (int (length ?lines)) ?last])"
    by (rule impI)
  show ?thesis
    by (intro conjI) (fact s, fact p, fact b, fact w')
qed

lemma ten_lines:
  "length (Split ''l1\<newline>l2\<newline>l3\<newline>l4\<newline>l5\<newline>l6\<newline>l7\<newline>l8\<newline>l9\<newline>l10'') = 10"
  by simp

theorem context_window_witness:
  "contextStart (NewSourceRangeSingle ''f'' 5 1) = 3
   \<and> contextEnd (NewSourceRangeSingle ''f'' 5 1)
        (Split ''l1\<newline>l2\<newline>l3\<newline>l4\<newline>l5\<newline>l6\<newline>l7\<newline>l8\<newline>l9\<newline>l10'') = 7
   \<and> contextStart (NewSourceRangeSingle ''f'' 1 1) = 1
   \<and> contextEnd (NewSourceRangeSingle ''f'' 1 1)
        (Split ''l1\<newline>l2\<newline>l3\<newline>l4\<newline>l5\<newline>l6\<newline>l7\<newline>l8\<newline>l9\<newline>l10'') = 3
   \<and> contextStart (NewSourceRangeSpan ''f'' 8 1 9 1) = 6
   \<and> contextEnd (NewSourceRangeSpan ''f'' 8 1 9 1)
        (Split ''l1\<newline>l2\<newline>l3\<newline>l4\<newline>l5\<newline>l6\<newline>l7\<newline>l8\<newline>l9\<newline>l10'') = 10"
proof -
  let ?src = "''l1\<newline>l2\<newline>l3\<newline>l4\<newline>l5\<newline>l6\<newline>l7\<newline>l8\<newline>l9\<newline>l10''"
  let ?e = "\<lparr>Sources = [''f'' \<mapsto> ?src], Format = FormatFehler\<rparr>"
  let ?r5 = "NewSourceRangeSingle ''f'' 5 1"
  let ?r1 = "NewSourceRangeSingle ''f'' 1 1"
  let ?r9 = "NewSourceRangeSpan ''f'' 8 1 9 1"
  have r5: "File ?r5 = ''f''" "Line (Start ?r5) = 5" "Line (End ?r5) = 5" "\<not> IsMultiline ?r5"
    and r1: "File ?r1 = ''f''" "Line (Start ?r1) = 1" "Line (End ?r1) = 1" "\<not> IsMultiline ?r1"
    and r9: "File ?r9 = ''f''" "Line (Start ?r9) = 8" "Line (End ?r9) = 9" "IsMultiline ?r9"
    by (simp_all add: NewSourceRangeSingle_def NewSourceRangeSpan_def IsMultiline_def)
  have reg: "Sources ?e (File ?r5) = Some ?src" "Sources ?e (File ?r1) = Some ?src"
    "Sources ?e (File ?r9) = Some ?src"
    by (simp_all only: r5 r1 r9) simp_all
  have small: "int64 (Line (Start ?r5))" "int64 (Line (Start ?r1))" "int64 (Line (Start ?r9))"
    by (simp_all only: r5 r1 r9) (simp_all add: int64_def)
  have fits5: "int64 (Line (End ?r5))
      \<and> int64 ((if IsMultiline ?r5 then Line (End ?r5) else Line (Start ?r5)) + 2)"
    and fits1: "int64 (Line (End ?r1))
      \<and> int64 ((if IsMultiline ?r1 then Line (End ?r1) else Line (Start ?r1)) + 2)"
    and fits9: "int64 (Line (End ?r9))
      \<and> int64 ((if IsMultiline ?r9 then Line (End ?r9) else Line (Start ?r9)) + 2)"
    by (simp_all only: r5 r1 r9) (simp_all add: int64_def)
  note cw5 = context_window [OF reg(1) small(1), of colorRed]
  note cw1 = context_window [OF reg(2) small(2), of colorRed]
  note cw9 = context_window [OF reg(3) small(3), of colorRed]
  have w5: "contextStart ?r5 = max 1 (Line (Start ?r5) - 2)
      \<and> contextEnd ?r5 (Split ?src) = min (int (length (Split ?src)))
           ((if IsMultiline ?r5 then Line (End ?r5) else Line (Start ?r5)) + 2)"
    using cw5 [THEN conjunct1]
      cw5 [THEN conjunct2, THEN conjunct2, THEN conjunct2, THEN mp, OF fits5, THEN conjunct1]
    by (rule conjI)
  have w1: "contextStart ?r1 = max 1 (Line (Start ?r1) - 2)
      \<and> contextEnd ?r1 (Split ?src) = min (int (length (Split ?src)))
           ((if IsMultiline ?r1 then Line (End ?r1) else Line (Start ?r1)) + 2)"
    using cw1 [THEN conjunct1]
      cw1 [THEN conjunct2, THEN conjunct2, THEN conjunct2, THEN mp, OF fits1, THEN conjunct1]
    by (rule conjI)
  have w9: "contextStart ?r9 = max 1 (Line (Start ?r9) - 2)
      \<and> contextEnd ?r9 (Split ?src) = min (int (length (Split ?src)))
           ((if IsMultiline ?r9 then Line (End ?r9) else Line (Start ?r9)) + 2)"
    using cw9 [THEN conjunct1]
      cw9 [THEN conjunct2, THEN conjunct2, THEN conjunct2, THEN mp, OF fits9, THEN conjunct1]
    by (rule conjI)
  from w5 w1 w9 show ?thesis
    by (simp only: r5 r1 r9 ten_lines) simp
qed

text \<open>
  With an end line of \<open>2 ^ 63 - 1\<close> the sum \<open>end.line + 2\<close> wraps around to a negative
  number: the window is empty and nothing is printed, where the formula of C5 ends the
  window at line 10.
\<close>

theorem context_window_overflow:
  "printSourceSnippet
     \<lparr>Sources = [''f'' \<mapsto> ''l1\<newline>l2\<newline>l3\<newline>l4\<newline>l5\<newline>l6\<newline>l7\<newline>l8\<newline>l9\<newline>l10''],
      Format = FormatFehler\<rparr>
     (NewSourceRangeSpan ''f'' 1 1 9223372036854775807 1) colorRed = Inr []
   \<and> contextEnd (NewSourceRangeSpan ''f'' 1 1 9223372036854775807 1)
        (Split ''l1\<newline>l2\<newline>l3\<newline>l4\<newline>l5\<newline>l6\<newline>l7\<newline>l8\<newline>l9\<newline>l10'')
       = - 9223372036854775807
   \<and> min (int (length (Split ''l1\<newline>l2\<newline>l3\<newline>l4\<newline>l5\<newline>l6\<newline>l7\<newline>l8\<newline>l9\<newline>l10'')))
        (Line (End (NewSourceRangeSpan ''f'' 1 1 9223372036854775807 1)) + 2) = 10"
proof -
  let ?src = "''l1\<newline>l2\<newline>l3\<newline>l4\<newline>l5\<newline>l6\<newline>l7\<newline>l8\<newline>l9\<newline>l10''"
  let ?r = "NewSourceRangeSpan ''f'' 1 1 9223372036854775807 1"
  let ?e = "\<lparr>Sources = [''f'' \<mapsto> ?src], Format = FormatFehler\<rparr>"
  have r: "File ?r = ''f''" "Line (Start ?r) = 1" "Line (End ?r) = 9223372036854775807" "IsMultiline ?r"
    by (simp_all add: NewSourceRangeSpan_def IsMultiline_def)
  have "wrap64 (9223372036854775807 + 2) = - 9223372036854775807"
    by (simp add: wrap64_def)
  then have e: "contextEnd ?r (Split ?src) = - 9223372036854775807"
    by (simp only: contextEnd_def Let_def r ten_lines) simp
  have s: "contextStart ?r = 1"
    by (simp only: contextStart_def r) simp
  have reg: "Sources ?e (File ?r) = Some ?src"
    by (simp only: r) simp
  have "printSourceSnippet ?e ?r colorRed = snippetLoop (Split ?src) ?r colorRed 1 (- 9223372036854775807)"
    by (simp only: printSourceSnippet_def reg option.case Let_def s e)
  also have "\<dots> = Inr []"
    by (subst snippetLoop.simps) simp
  finally have p: "printSourceSnippet ?e ?r colorRed = Inr []" .
  have m: "min (int (length (Split ?src))) (Line (End ?r) + 2) = 10"
    by (simp only: r ten_lines)
  show ?thesis
    by (intro conjI) (fact p, fact e, fact m)
qed

section \<open>The lines of a snippet\<close>

lemma snippetLine_in_range:
  assumes "1 \<le> n" and "n \<le> int (length lines)" and "int (length lines) < 2 ^ 63"
  shows "snippetLine lines r color n =
     (if Line (Start r) \<le> n \<and> n \<le> Line (End r) then
        sequence
          [Print (''  '' @ colorRed @ colorBold @ fmt_4d n @ '' |'' @ colorReset
                  @ '' '' @ lines ! nat (n - 1) @ newline),
           printUnderline r n 4 color]
      else
        Print (''  '' @ colorDim @ fmt_4d n @ '' |'' @ colorReset
               @ '' '' @ lines ! nat (n - 1) @ newline))"
proof -
  have "wrap64 (n - 1) = n - 1"
    using assms by (simp add: wrap64_small)
  with assms show ?thesis
    by (simp add: snippetLine_def index_at_def Let_def)
qed

lemma dec_digits_length: "n < 10000 \<Longrightarrow> length (dec_digits n) \<le> 4"
  apply (subst dec_digits.simps)
  apply (subst dec_digits.simps)
  apply (subst dec_digits.simps)
  apply (subst dec_digits.simps)
  apply simp
  done

lemma dec_digits_nonempty: "dec_digits n \<noteq> []"
  by (subst dec_digits.simps) simp

lemma fmt_4d_width: "0 \<le> n \<Longrightarrow> n < 10000 \<Longrightarrow> length (fmt_4d n) = 4"
  using dec_digits_length [of "nat n"] by (simp add: fmt_4d_def fmt_d_def)

text \<open>
  C1 (as amended). In the snippet of the verbose format, for a registered file, a line
  touched by the range has its gutter (line number and bar) in bold red, whatever the
  severity; the severity's color is used only by the underline printed below it. A
  line outside the range has a dim gutter. The text of the line follows the color reset.
  The line number is padded on the left with spaces to a width of 4.
\<close>

theorem snippet_line_colors:
  assumes "Sources e (File r) = Some source"
    and "int64 (Line (Start r))" and "int (length (Split source)) < 2 ^ 63"
  shows "printSourceSnippet e r (Color (Severity d)) =
     sequence (map
       (\<lambda>n. if Line (Start r) \<le> n \<and> n \<le> Line (End r) then
              sequence
                [Print (''  '' @ colorRed @ colorBold @ fmt_4d n @ '' |'' @ colorReset
                        @ '' '' @ Split source ! nat (n - 1) @ newline),
                 printUnderline r n 4 (Color (Severity d))]
            else
              Print (''  '' @ colorDim @ fmt_4d n @ '' |'' @ colorReset
                     @ '' '' @ Split source ! nat (n - 1) @ newline))
       [contextStart r .. contextEnd r (Split source)])
     \<and> (\<forall>n. 0 \<le> n \<and> n < 10000 \<longrightarrow> length (fmt_4d n) = 4)
     \<and> (\<forall>n. fmt_4d n = replicate (4 - length (fmt_d n)) (CHR '' '') @ fmt_d n)"
proof -
  let ?shown = "\<lambda>n. if Line (Start r) \<le> n \<and> n \<le> Line (End r) then
              sequence
                [Print (''  '' @ colorRed @ colorBold @ fmt_4d n @ '' |'' @ colorReset
                        @ '' '' @ Split source ! nat (n - 1) @ newline),
                 printUnderline r n 4 (Color (Severity d))]
            else
              Print (''  '' @ colorDim @ fmt_4d n @ '' |'' @ colorReset
                     @ '' '' @ Split source ! nat (n - 1) @ newline)"
  let ?window = "[contextStart r .. contextEnd r (Split source)]"
  have "snippetLine (Split source) r (Color (Severity d)) n = ?shown n" if "n \<in> set ?window" for n
  proof -
    from that have "1 \<le> n" "n \<le> int (length (Split source))"
      using contextStart_ge_1 [OF assms(2)] contextEnd_le_length [of r "Split source"] by auto
    then show ?thesis
      using assms(3) by (rule snippetLine_in_range)
  qed
  then have same: "map (snippetLine (Split source) r (Color (Severity d))) ?window = map ?shown ?window"
    by (intro map_cong refl)
  have "printSourceSnippet e r (Color (Severity d)) =
      sequence (map (snippetLine (Split source) r (Color (Severity d))) ?window)"
    using assms(1) by (simp add: printSourceSnippet_def snippetLoop_upto Let_def)
  then have "printSourceSnippet e r (Color (Severity d)) = sequence (map ?shown ?window)"
    by (simp only: same)
  moreover have "\<forall>n. 0 \<le> n \<and> n < 10000 \<longrightarrow> length (fmt_4d n) = 4"
    by (simp add: fmt_4d_width)
  moreover have "\<forall>n. fmt_4d n = replicate (4 - length (fmt_d n)) (CHR '' '') @ fmt_d n"
    by (simp add: fmt_4d_def)
  ultimately show ?thesis
    by blast
qed

lemma five_spaces: "replicate 5 (CHR '' '') = ''     ''"
  by (simp add: eval_nat_numeral)

lemma fmt_d_1: "fmt_d 1 = ''1''" and fmt_d_2: "fmt_d 2 = ''2''"
  by (simp_all add: fmt_d_def dec_digits.simps digit_char_def)

lemma fmt_4d_1: "fmt_4d 1 = ''   1''" and fmt_4d_2: "fmt_4d 2 = ''   2''"
  by (simp_all add: fmt_4d_def fmt_d_1 fmt_d_2 eval_nat_numeral)

theorem snippet_line_colors_witness:
  "printSourceSnippet (AddSource NewErrorReporter ''a.go'' ''x\<newline>y'')
     (NewSourceRangeSingle ''a.go'' 1 1)
     (Color (Severity (NewDiagnosticWithLocation SeverityNote ''defined here'' ''a.go'' 1 1)))
   = Inr (''  '' @ colorRed @ colorBold @ ''   1 |'' @ colorReset @ '' x'' @ newline
          @ ''  '' @ colorBlue @ ''       '' @ ''^'' @ colorReset @ newline
          @ ''  '' @ colorDim @ ''   2 |'' @ colorReset @ '' y'' @ newline)"
proof -
  let ?e = "AddSource NewErrorReporter ''a.go'' ''x\<newline>y''"
  let ?r = "NewSourceRangeSingle ''a.go'' 1 1"
  let ?d = "NewDiagnosticWithLocation SeverityNote ''defined here'' ''a.go'' 1 1"
  have r: "File ?r = ''a.go''" "Line (Start ?r) = 1" "Column (Start ?r) = 1"
    "Line (End ?r) = 1" "Column (End ?r) = 1"
    by (simp_all add: NewSourceRangeSingle_def)
  have shape: "\<not> IsMultiline ?r" "IsSingleChar ?r"
    by (simp_all add: IsMultiline_def IsSingleChar_def r)
  have blue: "Color (Severity ?d) = colorBlue"
    by (simp add: NewDiagnosticWithLocation_def WithLocation_def NewDiagnostic_def Color_def)
  have src: "Split ''x\<newline>y'' = [''x'', ''y'']"
    by simp
  have reg: "Sources ?e (File ?r) = Some ''x\<newline>y''"
    by (simp add: AddSource_def NewErrorReporter_def r)
  have small: "int64 (Line (Start ?r))" "int (length (Split ''x\<newline>y'')) < 2 ^ 63"
    by (simp_all add: r int64_def)
  have win: "contextStart ?r = 1" "contextEnd ?r [''x'', ''y''] = 2"
    by (simp_all add: contextStart_def contextEnd_def Let_def r shape wrap64_def)
  have under: "printUnderline ?r 1 4 colorBlue
      = Inr (''  '' @ colorBlue @ ''       '' @ ''^'' @ colorReset @ newline)"
    by (simp add: printUnderline_def shape r gutter_pad five_spaces Print_def Repeat_def wrap64_def)
  have upto: "[1..2] = [1, 2::int]"
    by (simp add: upto_rec1)
  from snippet_line_colors [OF reg small, of ?d, THEN conjunct1]
  show ?thesis
    by (simp only: blue src win upto r) (simp add: under fmt_4d_1 fmt_4d_2 Print_def)
qed

text \<open>
  The gutter of the touched line of a warning is red, not the yellow of the severity.
\<close>

theorem warning_line_gutter_is_red:
  "printFehler (AddSource NewErrorReporter ''a.go'' ''x'')
     (NewDiagnosticWithLocation SeverityWarning ''unused'' ''a.go'' 1 1)
   = Inr (colorYellow @ colorBold @ ''warning'' @ colorReset @ '': unused'' @ newline
          @ ''  '' @ colorCyan @ colorBold @ ''a.go:1:1'' @ colorReset @ newline
          @ ''  '' @ colorRed @ colorBold @ ''   1 |'' @ colorReset @ '' x'' @ newline
          @ ''  '' @ colorYellow @ ''       '' @ ''^'' @ colorReset @ newline
          @ newline)
   \<and> Color SeverityWarning = colorYellow
   \<and> colorRed \<noteq> colorYellow"
proof -
  let ?e = "AddSource NewErrorReporter ''a.go'' ''x''"
  let ?r = "NewSourceRangeSingle ''a.go'' 1 1"
  have r: "File ?r = ''a.go''" "Line (Start ?r) = 1" "Column (Start ?r) = 1"
    "Line (End ?r) = 1" "Column (End ?r) = 1"
    by (simp_all add: NewSourceRangeSingle_def)
  have shape: "\<not> IsMultiline ?r" "IsSingleChar ?r"
    by (simp_all add: IsMultiline_def IsSingleChar_def r)
  have reg: "Sources ?e (File ?r) = Some ''x''"
    by (simp add: AddSource_def NewErrorReporter_def r)
  have win: "contextStart ?r = 1" "contextEnd ?r (Split ''x'') = 1"
    by (simp_all add: contextStart_def contextEnd_def Let_def r shape wrap64_def)
  have under: "printUnderline ?r 1 4 colorYellow
      = Inr (''  '' @ colorYellow @ ''       '' @ ''^'' @ colorReset @ newline)"
    by (simp add: printUnderline_def shape r gutter_pad five_spaces Print_def Repeat_def wrap64_def)
  have line: "snippetLine (Split ''x'') ?r colorYellow 1
      = Inr (''  '' @ colorRed @ colorBold @ ''   1 |'' @ colorReset @ '' x'' @ newline
             @ ''  '' @ colorYellow @ ''       '' @ ''^'' @ colorReset @ newline)"
    by (simp add: snippetLine_def index_at_def wrap64_def r under fmt_4d_1 Print_def)
  have snip: "printSourceSnippet ?e ?r colorYellow
      = Inr (''  '' @ colorRed @ colorBold @ ''   1 |'' @ colorReset @ '' x'' @ newline
             @ ''  '' @ colorYellow @ ''       '' @ ''^'' @ colorReset @ newline)"
    by (simp add: printSourceSnippet_def reg Let_def win snippetLoop_upto line del: Split.simps)
  have yellow: "Color SeverityWarning = colorYellow"
    by (simp add: Color_def)
  have label: "Label SeverityWarning = ''warning''"
    by (simp add: Label_def)
  have d: "NewDiagnosticWithLocation SeverityWarning ''unused'' ''a.go'' 1 1
      = \<lparr>Severity = SeverityWarning, Message = ''unused'', Range_of = Some ?r,
         Help = None, Code = None, Url = None\<rparr>"
    by (simp add: NewDiagnosticWithLocation_def WithLocation_def NewDiagnostic_def)
  have out: "printFehler ?e (NewDiagnosticWithLocation SeverityWarning ''unused'' ''a.go'' 1 1)
   = Inr (colorYellow @ colorBold @ ''warning'' @ colorReset @ '': unused'' @ newline
          @ ''  '' @ colorCyan @ colorBold @ ''a.go:1:1'' @ colorReset @ newline
          @ ''  '' @ colorRed @ colorBold @ ''   1 |'' @ colorReset @ '' x'' @ newline
          @ ''  '' @ colorYellow @ ''       '' @ ''^'' @ colorReset @ newline
          @ newline)"
    by (simp add: d printFehler_def yellow label snip r fmt_d_1 Print_def
        del: SeverityWarning_def)
  have ne: "colorRed \<noteq> colorYellow"
    by (simp add: colorRed_def colorYellow_def)
  show ?thesis
    by (intro conjI) (fact out, fact yellow, fact ne)
qed

section \<open>The console formats\<close>

lemma fmt_d_5: "fmt_d 5 = ''5''" and fmt_d_14: "fmt_d 14 = ''14''"
  by (simp_all add: fmt_d_def dec_digits.simps digit_char_def)

text \<open>
  C6. When the file of the range is not in the source registry, the snippet is empty and
  \<open>printFehler\<close> returns normally, having printed the header, the location line, the help
  and the url lines when present, and the closing blank line.
\<close>

theorem missing_source_no_snippet:
  assumes "Range_of d = Some r" and "Sources e (File r) = None"
  shows "printSourceSnippet e r color = Inr []
       \<and> printFehler e d =
           Inr (Color (Severity d) @ colorBold @ Label (Severity d)
                @ (case Code d of Some code \<Rightarrow> ''['' @ code @ '']'' | None \<Rightarrow> [])
                @ colorReset @ '': '' @ Message d @ newline
                @ ''  '' @ colorCyan @ colorBold @ File r @ '':'' @ fmt_d (Line (Start r))
                @ '':'' @ fmt_d (Column (Start r)) @ colorReset @ newline
                @ (case Help d of
                     Some help \<Rightarrow> ''  '' @ colorCyan @ colorBold @ ''help'' @ colorReset @ '': '' @ help @ newline
                   | None \<Rightarrow> [])
                @ (case Url d of
                     Some url \<Rightarrow> ''  '' @ colorCyan @ colorBold @ ''see'' @ colorReset @ '': '' @ url @ newline
                   | None \<Rightarrow> [])
                @ newline)"
proof -
  have snip: "printSourceSnippet e r color = Inr []" for color
    using assms(2) by (simp add: printSourceSnippet_def)
  show ?thesis
    using assms(1) by (simp add: printFehler_def snip Print_def split: option.split)
qed

theorem missing_source_no_snippet_witness:
  "printFehler NewErrorReporter
     (WithUrl (WithCode (WithHelp (WithRange
        (NewDiagnostic SeverityError ''type mismatch'')
        (NewSourceRangeSpan ''example.go'' 5 14 5 20)) ''convert it'') ''E0001'')
        ''https://docs.example.org/errors/E0001'')
   = Inr (colorRed @ colorBold @ ''error[E0001]'' @ colorReset @ '': type mismatch'' @ newline
          @ ''  '' @ colorCyan @ colorBold @ ''example.go:5:14'' @ colorReset @ newline
          @ ''  '' @ colorCyan @ colorBold @ ''help'' @ colorReset @ '': convert it'' @ newline
          @ ''  '' @ colorCyan @ colorBold @ ''see'' @ colorReset
          @ '': https://docs.example.org/errors/E0001'' @ newline
          @ newline)"
proof -
  let ?r = "NewSourceRangeSpan ''example.go'' 5 14 5 20"
  let ?d = "WithUrl (WithCode (WithHelp (WithRange
        (NewDiagnostic SeverityError ''type mismatch'') ?r) ''convert it'') ''E0001'')
        ''https://docs.example.org/errors/E0001''"
  have r: "File ?r = ''example.go''" "Line (Start ?r) = 5" "Column (Start ?r) = 14"
    by (simp_all add: NewSourceRangeSpan_def)
  have d: "Range_of ?d = Some ?r" "Severity ?d = SeverityError" "Message ?d = ''type mismatch''"
    "Code ?d = Some ''E0001''" "Help ?d = Some ''convert it''"
    "Url ?d = Some ''https://docs.example.org/errors/E0001''"
    by (simp_all add: WithUrl_def WithCode_def WithHelp_def WithRange_def NewDiagnostic_def)
  have absent: "Sources NewErrorReporter (File ?r) = None"
    by (simp add: NewErrorReporter_def)
  from missing_source_no_snippet [OF d(1) absent, of colorRed, THEN conjunct2]
  show ?thesis
    by (simp only: d r) (simp add: fmt_d_5 fmt_d_14 Label_def Color_def)
qed

text \<open>
  C7 (as amended). The GCC format prints one line: with a range,
  \<open>file:line:column: severity: message\<close>, and without one \<open>severity: message\<close>, in both
  cases with the ANSI sequences for bold, the severity's color and reset set between
  the parts. No snippet, help, url or code is printed.
\<close>

theorem gcc_line:
  "(Range_of d = Some r \<longrightarrow>
      printGcc e d =
        Inr (colorBold @ File r @ '':'' @ fmt_d (Line (Start r)) @ '':'' @ fmt_d (Column (Start r))
             @ '': '' @ Color (Severity d) @ Label (Severity d) @ '': '' @ colorReset
             @ colorBold @ Message d @ colorReset @ newline))
   \<and> (Range_of d = None \<longrightarrow>
      printGcc e d =
        Inr (colorBold @ Color (Severity d) @ Label (Severity d) @ '': '' @ colorReset
             @ colorBold @ Message d @ colorReset @ newline))"
  by (simp add: printGcc_def Print_def Let_def)

theorem gcc_line_witness:
  "printGcc NewErrorReporter
     (WithUrl (WithCode (WithHelp (WithRange
        (NewDiagnostic SeverityError ''type mismatch: cannot add int and string'')
        (NewSourceRangeSpan ''example.go'' 5 14 5 20)) ''consider converting'') ''E0001'')
        ''https://docs.example.org/errors/E0001'')
   = Inr (colorBold @ ''example.go:5:14: '' @ colorRed @ ''error: '' @ colorReset @ colorBold
          @ ''type mismatch: cannot add int and string'' @ colorReset @ newline)
   \<and> printGcc NewErrorReporter (WithCode (NewDiagnostic SeverityNote ''see above'') ''N1'')
   = Inr (colorBold @ colorBlue @ ''note: '' @ colorReset @ colorBold @ ''see above''
          @ colorReset @ newline)"
proof -
  let ?r = "NewSourceRangeSpan ''example.go'' 5 14 5 20"
  let ?d1 = "WithUrl (WithCode (WithHelp (WithRange
        (NewDiagnostic SeverityError ''type mismatch: cannot add int and string'') ?r)
        ''consider converting'') ''E0001'') ''https://docs.example.org/errors/E0001''"
  let ?d2 = "WithCode (NewDiagnostic SeverityNote ''see above'') ''N1''"
  have r: "File ?r = ''example.go''" "Line (Start ?r) = 5" "Column (Start ?r) = 14"
    by (simp_all add: NewSourceRangeSpan_def)
  have d1: "Range_of ?d1 = Some ?r" "Severity ?d1 = SeverityError"
    "Message ?d1 = ''type mismatch: cannot add int and string''"
    by (simp_all add: WithUrl_def WithCode_def WithHelp_def WithRange_def NewDiagnostic_def)
  have d2: "Range_of ?d2 = None" "Severity ?d2 = SeverityNote" "Message ?d2 = ''see above''"
    by (simp_all add: WithCode_def NewDiagnostic_def)
  have a: "printGcc NewErrorReporter ?d1
      = Inr (colorBold @ ''example.go:5:14: '' @ colorRed @ ''error: '' @ colorReset @ colorBold
          @ ''type mismatch: cannot add int and string'' @ colorReset @ newline)"
    using gcc_line [of ?d1 ?r NewErrorReporter]
    by (simp only: d1 r) (simp add: fmt_d_5 fmt_d_14 Label_def Color_def)
  have b: "printGcc NewErrorReporter ?d2
      = Inr (colorBold @ colorBlue @ ''note: '' @ colorReset @ colorBold @ ''see above''
          @ colorReset @ newline)"
    using gcc_line [of ?d2 ?r NewErrorReporter]
    by (simp only: d2) (simp add: Label_def Color_def)
  show ?thesis
    by (intro conjI) (fact a, fact b)
qed

text \<open>
  The output of the GCC format for the example is not the plain line, with or without
  the newline: it starts with the sequence for bold.
\<close>

theorem gcc_line_has_color_codes:
  "printGcc NewErrorReporter
     (WithRange (NewDiagnostic SeverityError ''type mismatch: cannot add int and string'')
        (NewSourceRangeSpan ''example.go'' 5 14 5 20))
   \<noteq> Inr ''example.go:5:14: error: type mismatch: cannot add int and string\<newline>''
   \<and> printGcc NewErrorReporter
     (WithRange (NewDiagnostic SeverityError ''type mismatch: cannot add int and string'')
        (NewSourceRangeSpan ''example.go'' 5 14 5 20))
   \<noteq> Inr ''example.go:5:14: error: type mismatch: cannot add int and string''
   \<and> printGcc NewErrorReporter
     (WithRange (NewDiagnostic SeverityError ''type mismatch: cannot add int and string'')
        (NewSourceRangeSpan ''example.go'' 5 14 5 20))
   = Inr (colorBold @ ''example.go:5:14: '' @ colorRed @ ''error: '' @ colorReset @ colorBold
          @ ''type mismatch: cannot add int and string'' @ colorReset @ newline)"
  by (simp add: printGcc_def Print_def Let_def WithRange_def NewDiagnostic_def NewSourceRangeSpan_def
      fmt_d_5 fmt_d_14 Label_def Color_def colorBold_def)

text \<open>
  C8. The MSVC format prints, with a range, exactly the line
  \<open>file(line, column): severity code: message\<close>, where the code is \<open>unknown\<close> when the
  diagnostic has none, and without a range exactly \<open>severity: message\<close>.
\<close>

theorem msvc_line:
  "(Range_of d = Some r \<longrightarrow>
      printMsvc e d =
        Inr (File r @ ''('' @ fmt_d (Line (Start r)) @ '', '' @ fmt_d (Column (Start r)) @ ''): ''
             @ Label (Severity d) @ '' '' @ (case Code d of Some code \<Rightarrow> code | None \<Rightarrow> ''unknown'')
             @ '': '' @ Message d @ newline))
   \<and> (Range_of d = None \<longrightarrow>
      printMsvc e d = Inr (Label (Severity d) @ '': '' @ Message d @ newline))"
  by (simp add: printMsvc_def Print_def Let_def)

theorem msvc_line_witness:
  "printMsvc NewErrorReporter
     (WithCode (WithRange (NewDiagnostic SeverityError ''type mismatch: cannot add int and string'')
        (NewSourceRangeSpan ''example.go'' 5 14 5 20)) ''E0001'')
   = Inr ''example.go(5, 14): error E0001: type mismatch: cannot add int and string\<newline>''
   \<and> printMsvc NewErrorReporter
     (WithRange (NewDiagnostic SeverityError ''type mismatch: cannot add int and string'')
        (NewSourceRangeSpan ''example.go'' 5 14 5 20))
   = Inr ''example.go(5, 14): error unknown: type mismatch: cannot add int and string\<newline>''
   \<and> printMsvc NewErrorReporter (WithCode (NewDiagnostic SeverityWarning ''unused variable'') ''W7'')
   = Inr ''warning: unused variable\<newline>''"
proof -
  let ?r = "NewSourceRangeSpan ''example.go'' 5 14 5 20"
  let ?d0 = "NewDiagnostic SeverityError ''type mismatch: cannot add int and string''"
  let ?d1 = "WithCode (WithRange ?d0 ?r) ''E0001''"
  let ?d2 = "WithRange ?d0 ?r"
  let ?d3 = "WithCode (NewDiagnostic SeverityWarning ''unused variable'') ''W7''"
  have r: "File ?r = ''example.go''" "Line (Start ?r) = 5" "Column (Start ?r) = 14"
    by (simp_all add: NewSourceRangeSpan_def)
  have d1: "Range_of ?d1 = Some ?r" "Code ?d1 = Some ''E0001''" "Severity ?d1 = SeverityError"
    "Message ?d1 = ''type mismatch: cannot add int and string''"
    by (simp_all add: WithCode_def WithRange_def NewDiagnostic_def)
  have d2: "Range_of ?d2 = Some ?r" "Code ?d2 = None" "Severity ?d2 = SeverityError"
    "Message ?d2 = ''type mismatch: cannot add int and string''"
    by (simp_all add: WithRange_def NewDiagnostic_def)
  have d3: "Range_of ?d3 = None" "Severity ?d3 = SeverityWarning" "Message ?d3 = ''unused variable''"
    by (simp_all add: WithCode_def NewDiagnostic_def)
  have a: "printMsvc NewErrorReporter ?d1
      = Inr ''example.go(5, 14): error E0001: type mismatch: cannot add int and string\<newline>''"
    using msvc_line [of ?d1 ?r NewErrorReporter]
    by (simp only: d1 r) (simp add: fmt_d_5 fmt_d_14 Label_def newline_def)
  have b: "printMsvc NewErrorReporter ?d2
      = Inr ''example.go(5, 14): error unknown: type mismatch: cannot add int and string\<newline>''"
    using msvc_line [of ?d2 ?r NewErrorReporter]
    by (simp only: d2 r) (simp add: fmt_d_5 fmt_d_14 Label_def newline_def)
  have c: "printMsvc NewErrorReporter ?d3 = Inr ''warning: unused variable\<newline>''"
    using msvc_line [of ?d3 ?r NewErrorReporter]
    by (simp only: d3) (simp add: Label_def newline_def)
  show ?thesis
    by (intro conjI) (fact a, fact b, fact c)
qed

section \<open>The SARIF report\<close>

lemma collectRules_lookup:
  "map_of (collectRules ds m) c =
     (case map_of m c of
        Some rule \<Rightarrow> Some rule
      | None \<Rightarrow>
          (case List.find (\<lambda>d. Code d = Some c) ds of
             None \<Rightarrow> None
           | Some d \<Rightarrow> Some (newRule d c)))"
proof (induction ds arbitrary: m)
  case Nil
  show ?case by (simp split: option.split)
next
  case (Cons d ds)
  show ?case
  proof (cases "Code d")
    case None
    with Cons.IH [of m] show ?thesis by (simp split: option.split)
  next
    case (Some code)
    show ?thesis
    proof (cases "map_of m code")
      case absent: None
      from Some absent have step: "collectRules (d # ds) m = collectRules ds (m @ [(code, newRule d code)])"
        by simp
      show ?thesis
      proof (cases "c = code")
        case True
        with Some absent show ?thesis
          unfolding step Cons.IH by (simp add: map_add_def)
      next
        case False
        with Some show ?thesis
          unfolding step Cons.IH by (simp add: map_add_def split: option.split)
      qed
    next
      case present: (Some rule)
      from Some present have step: "collectRules (d # ds) m = collectRules ds m"
        by simp
      show ?thesis
      proof (cases "c = code")
        case True
        with Some present show ?thesis
          unfolding step Cons.IH by simp
      next
        case False
        with Some show ?thesis
          unfolding step Cons.IH by (simp split: option.split)
      qed
    qed
  qed
qed

lemma collectRules_distinct:
  "distinct (map fst m) \<Longrightarrow> distinct (map fst (collectRules ds m))"
proof (induction ds arbitrary: m)
  case Nil
  then show ?case by simp
next
  case (Cons d ds)
  show ?case
  proof (cases "Code d")
    case None
    with Cons show ?thesis by simp
  next
    case (Some code)
    show ?thesis
    proof (cases "map_of m code")
      case None
      then have "code \<notin> fst ` set m"
        by (simp add: map_of_eq_None_iff)
      with Cons.prems have "distinct (map fst (m @ [(code, newRule d code)]))"
        by simp
      from Cons.IH [OF this] Some None show ?thesis by simp
    next
      case present: (Some rule)
      with Cons Some show ?thesis by simp
    qed
  qed
qed

lemma collectRules_entry:
  assumes "(c, rule) \<in> set (collectRules ds [])"
  shows "\<exists>d. List.find (\<lambda>d. Code d = Some c) ds = Some d \<and> rule = newRule d c"
proof -
  have "distinct (map fst (collectRules ds []))"
    by (rule collectRules_distinct) simp
  with assms have "map_of (collectRules ds []) c = Some rule"
    by simp
  then show ?thesis
    by (simp add: collectRules_lookup split: option.splits)
qed

lemma collectRules_keys:
  "fst ` set (collectRules ds []) = {c. \<exists>d \<in> set ds. Code d = Some c}"
proof -
  have "c \<in> fst ` set (collectRules ds []) \<longleftrightarrow> (\<exists>d \<in> set ds. Code d = Some c)" for c
  proof -
    have "c \<in> fst ` set (collectRules ds []) \<longleftrightarrow> map_of (collectRules ds []) c \<noteq> None"
      by (simp add: map_of_eq_None_iff)
    also have "\<dots> \<longleftrightarrow> List.find (\<lambda>d. Code d = Some c) ds \<noteq> None"
      by (simp add: collectRules_lookup split: option.split)
    also have "\<dots> \<longleftrightarrow> (\<exists>d \<in> set ds. Code d = Some c)"
      by (auto simp: find_None_iff)
    finally show ?thesis .
  qed
  then show ?thesis by blast
qed

lemma collectResults_map: "collectResults ds = map newResult ds"
  by (induction ds) simp_all

lemma distinct_singleton:
  assumes "distinct xs" and "set xs = {x}"
  shows "xs = [x]"
proof (cases xs)
  case Nil
  with assms(2) show ?thesis by simp
next
  case (Cons a ys)
  with assms have "a = x" and "set ys \<subseteq> {x}" and "a \<notin> set ys"
    by auto
  then have "ys = []"
    by (cases ys) auto
  with Cons \<open>a = x\<close> show ?thesis
    by simp
qed

text \<open>
  C9 (as amended). For every list of diagnostics, whatever order the iteration over the
  map of rules takes, the report has one run; its rules have pairwise distinct ids, and
  the ids are exactly the codes carried by the diagnostics, the empty string included
  when a diagnostic carries it as its code; the description of a rule is the message of
  the first diagnostic with that code; and there is one result for each diagnostic, in
  input order, with the diagnostic's message and its code (or none) as rule id.
\<close>

theorem sarif_rules_and_results:
  assumes "mset (rangeOrder (collectRules ds [])) = mset (collectRules ds [])"
  shows "\<exists>run. Runs (EmitSarif rangeOrder ds) = [run]
     \<and> distinct (map ID (Rules (Driver (Tool run))))
     \<and> set (map ID (Rules (Driver (Tool run)))) = {c. \<exists>d \<in> set ds. Code d = Some c}
     \<and> (\<forall>rule \<in> set (Rules (Driver (Tool run))).
           \<exists>d. List.find (\<lambda>d. Code d = Some (ID rule)) ds = Some d
             \<and> Text (ShortDescription rule) = Message d)
     \<and> length (Results run) = length ds
     \<and> map RuleID (Results run) = map Code ds
     \<and> map (\<lambda>res. Text (ResultMessage res)) (Results run) = map Message ds"
proof -
  let ?m = "collectRules ds []"
  let ?rules = "map snd (rangeOrder ?m)"
  let ?results = "collectResults ds"
  let ?run = "\<lparr>Tool = \<lparr>Driver = \<lparr>Name = ''fehler'', DriverVersion = ''0.5.0'',
      InformationURI = ''https://github.com/ciathefed/fehler'', Rules = ?rules\<rparr>\<rparr>,
    Results = ?results\<rparr>"
  have same_set: "set (rangeOrder ?m) = set ?m"
    using assms by (rule mset_eq_setD)
  have entry: "\<exists>d. List.find (\<lambda>d. Code d = Some (fst x)) ds = Some d \<and> snd x = newRule d (fst x)"
    if "x \<in> set (rangeOrder ?m)" for x
  proof -
    from that same_set have "(fst x, snd x) \<in> set ?m" by simp
    then show ?thesis by (rule collectRules_entry)
  qed
  have id_fst: "ID (snd x) = fst x" if "x \<in> set (rangeOrder ?m)" for x
    using entry [OF that] by (auto simp: newRule_def)
  then have ids: "map ID ?rules = map fst (rangeOrder ?m)"
    by simp
  have "mset (map fst (rangeOrder ?m)) = mset (map fst ?m)"
    using assms by simp
  moreover have "distinct (map fst ?m)"
    by (rule collectRules_distinct) simp
  ultimately have "distinct (map fst (rangeOrder ?m))"
    using mset_eq_imp_distinct_iff by blast
  then have d: "distinct (map ID ?rules)"
    by (simp only: ids)
  have k: "set (map ID ?rules) = {c. \<exists>d \<in> set ds. Code d = Some c}"
    by (simp only: ids set_map same_set collectRules_keys)
  have t: "\<forall>rule \<in> set ?rules.
           \<exists>d. List.find (\<lambda>d. Code d = Some (ID rule)) ds = Some d
             \<and> Text (ShortDescription rule) = Message d"
  proof
    fix rule
    assume "rule \<in> set ?rules"
    then obtain x where x: "x \<in> set (rangeOrder ?m)" and rule: "rule = snd x"
      by auto
    from entry [OF x] obtain d0 where
      "List.find (\<lambda>d. Code d = Some (fst x)) ds = Some d0" and "snd x = newRule d0 (fst x)"
      by blast
    with rule id_fst [OF x]
    show "\<exists>d. List.find (\<lambda>d. Code d = Some (ID rule)) ds = Some d
             \<and> Text (ShortDescription rule) = Message d"
      by (simp add: newRule_def)
  qed
  have l: "length ?results = length ds"
    by (simp add: collectResults_map)
  have ri: "map RuleID ?results = map Code ds"
    by (simp add: collectResults_map newResult_def)
  have tx: "map (\<lambda>res. Text (ResultMessage res)) ?results = map Message ds"
    by (simp add: collectResults_map newResult_def)
  have runs: "Runs (EmitSarif rangeOrder ds) = [?run]"
    by (simp add: EmitSarif_def Let_def)
  have acc: "Rules (Driver (Tool ?run)) = ?rules" "Results ?run = ?results"
    by simp_all
  show ?thesis
    by (rule exI [of _ ?run], unfold acc, intro conjI)
      (fact runs, fact d, fact k, fact t, fact l, fact ri, fact tx)
qed

theorem sarif_rules_and_results_witness:
  "\<exists>run. Runs (EmitSarif (\<lambda>ruleMap. ruleMap)
        [WithCode (WithLocation (NewDiagnostic SeverityError ''invalid token'') ''main.go'' 1 2) ''E001'',
         WithCode (WithLocation (NewDiagnostic SeverityError ''invalid token'') ''main.go'' 3 4) ''E001'']) = [run]
     \<and> map ID (Rules (Driver (Tool run))) = [''E001'']
     \<and> map (\<lambda>rule. Text (ShortDescription rule)) (Rules (Driver (Tool run))) = [''invalid token'']
     \<and> length (Results run) = 2
     \<and> map RuleID (Results run) = [Some ''E001'', Some ''E001'']"
proof -
  define d1 where "d1 = WithCode (WithLocation (NewDiagnostic SeverityError ''invalid token'') ''main.go'' 1 2) ''E001''"
  define d2 where "d2 = WithCode (WithLocation (NewDiagnostic SeverityError ''invalid token'') ''main.go'' 3 4) ''E001''"
  have code: "Code d1 = Some ''E001''" "Code d2 = Some ''E001''"
    and msg: "Message d1 = ''invalid token''" "Message d2 = ''invalid token''"
    by (simp_all add: d1_def d2_def WithCode_def WithLocation_def NewDiagnostic_def)
  have codes: "{c. \<exists>d \<in> set [d1, d2]. Code d = Some c} = {''E001''}"
    by (auto simp: code)
  have "mset ((\<lambda>ruleMap. ruleMap) (collectRules [d1, d2] [])) = mset (collectRules [d1, d2] [])"
    by simp
  from sarif_rules_and_results [of "\<lambda>ruleMap. ruleMap" "[d1, d2]", OF this]
  obtain run where run: "Runs (EmitSarif (\<lambda>ruleMap. ruleMap) [d1, d2]) = [run]"
    and d: "distinct (map ID (Rules (Driver (Tool run))))"
    and k: "set (map ID (Rules (Driver (Tool run)))) = {c. \<exists>d \<in> set [d1, d2]. Code d = Some c}"
    and t: "\<forall>rule \<in> set (Rules (Driver (Tool run))).
           \<exists>d. List.find (\<lambda>d. Code d = Some (ID rule)) [d1, d2] = Some d
             \<and> Text (ShortDescription rule) = Message d"
    and l: "length (Results run) = length [d1, d2]"
    and ri: "map RuleID (Results run) = map Code [d1, d2]"
    by blast
  from k have "set (map ID (Rules (Driver (Tool run)))) = {''E001''}"
    by (simp only: codes)
  with d have ids: "map ID (Rules (Driver (Tool run))) = [''E001'']"
    by (rule distinct_singleton)
  then obtain rule where rules: "Rules (Driver (Tool run)) = [rule]"
    by (cases "Rules (Driver (Tool run))") auto
  with ids have id: "ID rule = ''E001''"
    by simp
  from t rules obtain d0 where "List.find (\<lambda>d. Code d = Some (ID rule)) [d1, d2] = Some d0"
    and tx: "Text (ShortDescription rule) = Message d0"
    by auto
  then have "d0 = d1"
    by (simp add: id code)
  with tx have "Text (ShortDescription rule) = ''invalid token''"
    by (simp only: msg)
  with rules have texts: "map (\<lambda>rule. Text (ShortDescription rule)) (Rules (Driver (Tool run))) = [''invalid token'']"
    by simp
  from l have len: "length (Results run) = 2"
    by simp
  from ri have ris: "map RuleID (Results run) = [Some ''E001'', Some ''E001'']"
    by (simp add: code)
  from run ids texts len ris
  have "\<exists>run. Runs (EmitSarif (\<lambda>ruleMap. ruleMap) [d1, d2]) = [run]
     \<and> map ID (Rules (Driver (Tool run))) = [''E001'']
     \<and> map (\<lambda>rule. Text (ShortDescription rule)) (Rules (Driver (Tool run))) = [''invalid token'']
     \<and> length (Results run) = 2
     \<and> map RuleID (Results run) = [Some ''E001'', Some ''E001'']"
    by (intro exI [of _ run] conjI)
  then show ?thesis
    unfolding d1_def d2_def .
qed

text \<open>
  A diagnostic whose code is the empty string gets a rule of its own, with the empty
  id: the code is present, and \<open>EmitSarif\<close> tests the pointer only.
\<close>

theorem empty_code_gets_a_rule:
  "EmitSarif (\<lambda>ruleMap. ruleMap) [WithCode (NewDiagnostic SeverityError ''bad token'') []]
   = \<lparr>Version = ''2.1.0'',
      Schema = ''https://json.schemastore.org/sarif-2.1.0.json'',
      Runs =
        [\<lparr>Tool =
            \<lparr>Driver =
               \<lparr>Name = ''fehler'', DriverVersion = ''0.5.0'',
                InformationURI = ''https://github.com/ciathefed/fehler'',
                Rules =
                  [\<lparr>ID = [], ShortDescription = \<lparr>Text = ''bad token''\<rparr>,
                    DefaultConfiguration = Some \<lparr>ConfigurationLevel = ''error''\<rparr>,
                    HelpURI = []\<rparr>]\<rparr>\<rparr>,
          Results =
            [\<lparr>ResultMessage = \<lparr>Text = ''bad token''\<rparr>, ResultLevel = ''error'',
              RuleID = Some [], Locations = [], Kind = ''fail''\<rparr>]\<rparr>]\<rparr>
   \<and> Code (WithCode (NewDiagnostic SeverityError ''bad token'') []) = Some []"
  by (simp add: EmitSarif_def Let_def WithCode_def NewDiagnostic_def newRule_def newResult_def
      sarifLevel_def)

end
